theory Spec2Isabelle
  imports Main "HOL-Library.AList" "HOL-Library.List_Lexorder" "HOL-Library.Char_ord"
    "HOL-Library.Product_Lexorder"
begin

section \<open>Go library functions used by gochatsrv\<close>

text \<open>
  Go strings are byte sequences; they are modelled as \<open>string\<close> (\<open>char list\<close>, one
  \<open>char\<close> per byte). The \<open>strings\<close> functions below are modelled on ASCII: case
  mapping touches only \<open>A..Z\<close>, white space is the six ASCII white-space bytes. Every
  nickname the server registers has passed \<open>validateNickname\<close> and is pure ASCII.
\<close>

definition toLowerChar :: "char \<Rightarrow> char" where
  "toLowerChar c =
     (case map_of (zip ''ABCDEFGHIJKLMNOPQRSTUVWXYZ'' ''abcdefghijklmnopqrstuvwxyz'') c of
        Some d \<Rightarrow> d
      | None \<Rightarrow> c)"

definition ToLower :: "string \<Rightarrow> string" where
  "ToLower s = map toLowerChar s"

definition EqualFold :: "string \<Rightarrow> string \<Rightarrow> bool" where
  "EqualFold a b = (map toLowerChar a = map toLowerChar b)"

definition isSpace :: "char \<Rightarrow> bool" where
  "isSpace c = (c \<in> set [CHR 0x09, CHR 0x0A, CHR 0x0B, CHR 0x0C, CHR 0x0D, CHR '' ''])"

definition TrimRight :: "string \<Rightarrow> string \<Rightarrow> string" where
  "TrimRight s cutset = rev (dropWhile (\<lambda>c. c \<in> set cutset) (rev s))"

definition Trim :: "string \<Rightarrow> string \<Rightarrow> string" where
  "Trim s cutset = dropWhile (\<lambda>c. c \<in> set cutset) (TrimRight s cutset)"

definition TrimSpace :: "string \<Rightarrow> string" where
  "TrimSpace s = dropWhile isSpace (rev (dropWhile isSpace (rev s)))"

definition TrimPrefix :: "string \<Rightarrow> string \<Rightarrow> string" where
  "TrimPrefix s p = (if take (length p) s = p then drop (length p) s else s)"

text \<open>\<open>strings.ReplaceAll\<close> for a one-byte pattern, the only way the server calls it.\<close>

definition ReplaceAll :: "string \<Rightarrow> char \<Rightarrow> string \<Rightarrow> string" where
  "ReplaceAll s old new = concat (map (\<lambda>c. if c = old then new else [c]) s)"

fun fieldsFrom :: "string \<Rightarrow> string \<Rightarrow> string list" where
  "fieldsFrom cur [] = (if cur = [] then [] else [cur])"
| "fieldsFrom cur (c # cs) =
     (if isSpace c then (if cur = [] then fieldsFrom [] cs else cur # fieldsFrom [] cs)
      else fieldsFrom (cur @ [c]) cs)"

definition Fields :: "string \<Rightarrow> string list" where
  "Fields s = fieldsFrom [] s"

fun Join :: "string list \<Rightarrow> string \<Rightarrow> string" where
  "Join [] sep = []"
| "Join [x] sep = x"
| "Join (x # y # ys) sep = x @ sep @ Join (y # ys) sep"

fun Contains :: "string \<Rightarrow> string \<Rightarrow> bool" where
  "Contains [] sub = (sub = [])"
| "Contains (c # cs) sub = (take (length sub) (c # cs) = sub \<or> Contains cs sub)"

definition isDigit :: "char \<Rightarrow> bool" where
  "isDigit c = (c \<in> set ''0123456789'')"

definition digitVal :: "char \<Rightarrow> int" where
  "digitVal c = (case map_of (zip ''0123456789'' [0, 1, 2, 3, 4, 5, 6, 7, 8, 9]) c of
                   Some d \<Rightarrow> d | None \<Rightarrow> 0)"

text \<open>
  \<open>strconv.Atoi\<close>: an optional sign, then one or more decimal digits; a value outside
  the 64-bit \<open>int\<close> is an error. \<open>None\<close> is the non-nil error.
\<close>

definition Atoi :: "string \<Rightarrow> int option" where
  "Atoi s =
     (let neg = (take 1 s = ''-'');
          ds = (if take 1 s = ''-'' \<or> take 1 s = ''+'' then drop 1 s else s)
      in if ds = [] \<or> \<not> list_all isDigit ds then None
         else let n = foldl (\<lambda>a c. 10 * a + digitVal c) 0 ds;
                  v = (if neg then - n else n)
              in if v < - (2 ^ 63) \<or> 2 ^ 63 - 1 < v then None else Some v)"

text \<open>The verb \<open>%d\<close> of \<open>fmt.Sprintf\<close>.\<close>

definition digitChar :: "nat \<Rightarrow> char" where
  "digitChar d = ''0123456789'' ! d"

fun natToDec :: "nat \<Rightarrow> string" where
  "natToDec n = (if n < 10 then [digitChar n] else natToDec (n div 10) @ [digitChar (n mod 10)])"

definition itoa :: "int \<Rightarrow> string" where
  "itoa i = (if i < 0 then CHR ''-'' # natToDec (nat (- i)) else natToDec (nat i))"

section \<open>util.go\<close>

definition ErrPrivilege :: string where
  "ErrPrivilege = ''this is a system command, must be admin user to execute''"

definition ErrIllegalNickname :: string where
  "ErrIllegalNickname = ''illegal nickname''"

definition ErrInvalidShutdownTime :: string where
  "ErrInvalidShutdownTime = ''invalid shutdown time, specify <#seconds>''"

definition serverName :: string where
  "serverName = ''ChatServer''"

definition maxLoginAttempts :: nat where
  "maxLoginAttempts = 3"

definition loginTimeout :: nat where
  "loginTimeout = 30"

definition isLetter :: "char \<Rightarrow> bool" where
  "isLetter c = (c \<in> set ''abcdefghijklmnopqrstuvwxyzABCDEFGHIJKLMNOPQRSTUVWXYZ'')"

definition isWordChar :: "char \<Rightarrow> bool" where
  "isWordChar c = (isLetter c \<or> isDigit c \<or> c = CHR ''_'')"

text \<open>
  The regular expression \<open>^[a-zA-Z][a-zA-Z0-9_]{2,19}$\<close>, matched by Go's \<open>regexp\<close>
  (no multi-line flag, so \<open>$\<close> is the end of the text): one letter, then 2 to 19
  letters, digits or underscores, and nothing else.
\<close>

definition nicknameRegexMatch :: "string \<Rightarrow> bool" where
  "nicknameRegexMatch s =
     (case s of
        [] \<Rightarrow> False
      | c # cs \<Rightarrow> isLetter c \<and> 2 \<le> length cs \<and> length cs \<le> 19 \<and> list_all isWordChar cs)"

text \<open>An \<open>error\<close> is modelled by its message; \<open>None\<close> is \<open>nil\<close>.\<close>

definition validateNickname :: "string \<Rightarrow> string option" where
  "validateNickname nickname =
     (if \<not> nicknameRegexMatch nickname then Some ErrIllegalNickname else None)"

definition sanitizeNickname :: "string \<Rightarrow> string" where
  "sanitizeNickname nickname =
     TrimRight (ReplaceAll (ReplaceAll nickname CHR '' '' []) (CHR 0x5C) []) [CHR 0x0D, CHR 0x0A]"

section \<open>External collaborators\<close>

text \<open>
  Code outside the repository is a parameter of the model: the \<open>termcolor\<close> renderer
  (called with the server's tag table), \<open>bcrypt\<close>, and \<open>sort.Slice\<close> from Go's
  standard library, here as a function of the comparison on elements. For bcrypt,
  \<open>Inl\<close> carries the error message.
\<close>

record Env =
  EncodeHTMLToTerm :: "string \<Rightarrow> string"
  GenerateFromPassword :: "string \<Rightarrow> string + string"
  CompareHashAndPassword :: "string \<Rightarrow> string \<Rightarrow> bool"
  SortSlice :: "(string \<Rightarrow> string \<Rightarrow> bool) \<Rightarrow> string list \<Rightarrow> string list"

section \<open>Data model\<close>

text \<open>
  A \<open>*User\<close> is an address into a store of \<open>User\<close> objects: the registry maps keys to
  pointers, and two keys may hold the same pointer. A \<open>net.Conn\<close> is an index into a
  store of connections. A connection records the lines written to it; a write fails
  when the connection is closed or the peer is gone (\<open>alive\<close> is false), and closing a
  closed connection is an error. Log output is not modelled.
\<close>

type_synonym ref = nat

record User =
  uid :: int
  username :: string
  privilege :: int
  nickname :: string
  conn :: nat
  lastMsgFrom :: string

record Conn =
  sent :: "string list"
  alive :: bool
  isClosed :: bool
  remoteAddr :: string

text \<open>A row of the table \<open>users\<close> of persistence.go.\<close>

record Account =
  acc_id :: int
  acc_username :: string
  password_hash :: string
  acc_privilege :: int

text \<open>
  The Go map \<open>um.users\<close> is an association list with distinct keys; its order stands
  for the (unspecified) iteration order of the map. \<open>countdowns\<close> lists the delays of
  the countdown goroutines that \<open>terminateServer\<close> has started.
\<close>

record ChatServer =
  users :: "(string \<times> ref) list"
  heap :: "ref \<Rightarrow> User"
  conns :: "nat \<Rightarrow> Conn"
  DB :: "Account list"
  dbSeq :: int
  nextRef :: ref
  shutdownOngoing :: bool
  listenerClosed :: bool
  commandsClosed :: bool
  countdowns :: "int list"

record ServerCommand =
  Command :: string
  User :: "ref option"
  Args :: "string list"

section \<open>serveraux.go: writing to a connection\<close>

definition connWrite :: "nat \<Rightarrow> string list \<Rightarrow> ChatServer \<Rightarrow> string option \<times> ChatServer" where
  "connWrite c ls s =
     (if ls = [] then (None, s)
      else if isClosed (conns s c) \<or> \<not> alive (conns s c) then (Some ''write failed'', s)
      else (None, s\<lparr>conns := (conns s)(c := (conns s c)\<lparr>sent := sent (conns s c) @ ls\<rparr>)\<rparr>))"

definition connClose :: "nat \<Rightarrow> ChatServer \<Rightarrow> string option \<times> ChatServer" where
  "connClose c s =
     (if isClosed (conns s c) then (Some ''use of closed network connection'', s)
      else (None, s\<lparr>conns := (conns s)(c := (conns s c)\<lparr>isClosed := True\<rparr>)\<rparr>))"

definition sendMessageToConn :: "nat \<Rightarrow> string list \<Rightarrow> ChatServer \<Rightarrow> string option \<times> ChatServer" where
  "sendMessageToConn c msgs s = connWrite c msgs s"

definition sendSysMessageToConn ::
  "Env \<Rightarrow> nat \<Rightarrow> string list \<Rightarrow> ChatServer \<Rightarrow> string option \<times> ChatServer" where
  "sendSysMessageToConn env c msgs s =
     connWrite c (map (\<lambda>msg. EncodeHTMLToTerm env (''<sys>'' @ msg @ ''</sys>'')) msgs) s"

section \<open>usermgr.go: the registry\<close>

definition FindUser :: "string \<Rightarrow> ChatServer \<Rightarrow> ref option" where
  "FindUser nick s =
     map_option snd (find (\<lambda>(k, u). EqualFold (nickname (heap s u)) nick) (users s))"

definition addUser :: "ref \<Rightarrow> ChatServer \<Rightarrow> bool \<times> ChatServer" where
  "addUser u s =
     (if map_of (users s) (nickname (heap s u)) \<noteq> None then (False, s)
      else (True, s\<lparr>users := AList.update (nickname (heap s u)) u (users s)\<rparr>))"

definition removeUser :: "string \<Rightarrow> ChatServer \<Rightarrow> ChatServer" where
  "removeUser nick s = s\<lparr>users := AList.delete (ToLower nick) (users s)\<rparr>"

definition unsafeSendMessageToUser ::
  "ref \<Rightarrow> string list \<Rightarrow> ChatServer \<Rightarrow> string option \<times> ChatServer" where
  "unsafeSendMessageToUser u msgs s =
     (case sendMessageToConn (conn (heap s u)) msgs s of
        (Some err, s') \<Rightarrow> (Some err, s'\<lparr>users := AList.delete (nickname (heap s' u)) (users s')\<rparr>)
      | (None, s') \<Rightarrow> (None, s'))"

definition unsafeSendSysMessageToUser ::
  "Env \<Rightarrow> ref \<Rightarrow> string list \<Rightarrow> ChatServer \<Rightarrow> string option \<times> ChatServer" where
  "unsafeSendSysMessageToUser env u msgs s =
     (case sendSysMessageToConn env (conn (heap s u)) msgs s of
        (Some err, s') \<Rightarrow> (Some err, s'\<lparr>users := AList.delete (nickname (heap s' u)) (users s')\<rparr>)
      | (None, s') \<Rightarrow> (None, s'))"

definition sendMessageToUser ::
  "ref \<Rightarrow> string list \<Rightarrow> ChatServer \<Rightarrow> string option \<times> ChatServer" where
  "sendMessageToUser u msgs s = unsafeSendMessageToUser u msgs s"

text \<open>
  \<open>for _, user := range um.users\<close> with a body that may delete entries: the loop runs
  over the entries present at its start, and an entry deleted before it is reached is
  not produced.
\<close>

fun rangeUsers ::
  "(ref \<Rightarrow> ChatServer \<Rightarrow> ChatServer) \<Rightarrow> (string \<times> ref) list \<Rightarrow> ChatServer \<Rightarrow> ChatServer" where
  "rangeUsers body [] s = s"
| "rangeUsers body ((k, u) # rest) s =
     (case map_of (users s) k of
        None \<Rightarrow> rangeUsers body rest s
      | Some user \<Rightarrow> rangeUsers body rest (body user s))"

definition broadcastMessage :: "string list \<Rightarrow> ChatServer \<Rightarrow> ChatServer" where
  "broadcastMessage msgs s =
     rangeUsers (\<lambda>user s'. snd (unsafeSendMessageToUser user msgs s')) (users s) s"

definition broadcastSysMessage :: "Env \<Rightarrow> string list \<Rightarrow> ChatServer \<Rightarrow> ChatServer" where
  "broadcastSysMessage env msgs s =
     rangeUsers (\<lambda>user s'. snd (unsafeSendSysMessageToUser env user msgs s')) (users s) s"

definition broadcastMessageExcept :: "string \<Rightarrow> string list \<Rightarrow> ChatServer \<Rightarrow> ChatServer" where
  "broadcastMessageExcept excludedUserNickname msgs s =
     rangeUsers
       (\<lambda>user s'. if EqualFold (nickname (heap s' user)) excludedUserNickname then s'
                  else snd (unsafeSendMessageToUser user msgs s'))
       (users s) s"

definition userListEntry :: "ref \<Rightarrow> ChatServer \<Rightarrow> ref \<Rightarrow> string" where
  "userListEntry requestingUser s user =
     (let priv = (if privilege (heap s user) = 1 then ''admin'' else ''user'')
      in if privilege (heap s requestingUser) = 1
         then nickname (heap s user) @ '' ('' @ priv @ '') (''
                @ remoteAddr (conns s (conn (heap s user))) @ '')''
         else nickname (heap s user) @ '' ('' @ priv @ '')'')"

text \<open>The slice \<open>userList\<close> of \<open>generateUserList\<close> as the loop leaves it, before sorting.\<close>

definition userList :: "ref \<Rightarrow> ChatServer \<Rightarrow> string list" where
  "userList requestingUser s = map (\<lambda>(k, user). userListEntry requestingUser s user) (users s)"

definition userListLess :: "string \<Rightarrow> string \<Rightarrow> bool" where
  "userListLess a b = ((Contains a ''admin'' \<and> \<not> Contains b ''admin'') \<or> a < b)"

definition generateUserList :: "Env \<Rightarrow> ref \<Rightarrow> ChatServer \<Rightarrow> string" where
  "generateUserList env requestingUser s =
     Join (SortSlice env userListLess (userList requestingUser s)) [CHR 0x0A]
       @ [CHR 0x0A] @ ''(end of list)'' @ [CHR 0x0A]"

section \<open>persistence.go: the credential store\<close>

text \<open>
  The SQL statements act on the rows of \<open>users\<close>; \<open>username\<close> is UNIQUE and \<open>id\<close> is
  AUTOINCREMENT (\<open>dbSeq\<close> is the largest id handed out). Comparison with \<open>=\<close> is
  byte-wise. Failures of the database file itself are not modelled, so every UPDATE and
  DELETE returns \<open>nil\<close>.
\<close>

definition createUser :: "string \<Rightarrow> string \<Rightarrow> int \<Rightarrow> ChatServer \<Rightarrow> string option \<times> ChatServer" where
  "createUser uname passwordHash priv s =
     (if list_ex (\<lambda>a. acc_username a = uname) (DB s)
      then (Some ''UNIQUE constraint failed: users.username'', s)
      else (None, s\<lparr>DB := DB s @ [\<lparr>acc_id = dbSeq s + 1, acc_username = uname,
                                     password_hash = passwordHash, acc_privilege = priv\<rparr>],
                     dbSeq := dbSeq s + 1\<rparr>))"

text \<open>
  \<open>authenticateUser\<close> returns a fresh \<open>User\<close> holding \<open>id\<close>, \<open>username\<close> and
  \<open>privilege\<close> of the row; the model returns the three values, and the caller places
  the object in the store once it has set \<open>nickname\<close> and \<open>conn\<close>.
\<close>

definition authenticateUser :: "Env \<Rightarrow> ChatServer \<Rightarrow> string \<Rightarrow> string \<Rightarrow> string + (int \<times> string \<times> int)" where
  "authenticateUser env s uname password =
     (case find (\<lambda>a. acc_username a = uname) (DB s) of
        None \<Rightarrow> Inl ''user not found''
      | Some a \<Rightarrow>
          if \<not> CompareHashAndPassword env (password_hash a) password then Inl ''invalid password''
          else Inr (acc_id a, acc_username a, acc_privilege a))"

definition updatePassword :: "string \<Rightarrow> string \<Rightarrow> ChatServer \<Rightarrow> string option \<times> ChatServer" where
  "updatePassword uname newPasswordHash s =
     (None, s\<lparr>DB := map (\<lambda>a. if acc_username a = uname then a\<lparr>password_hash := newPasswordHash\<rparr> else a)
                       (DB s)\<rparr>)"

definition updatePrivilege :: "string \<Rightarrow> int \<Rightarrow> ChatServer \<Rightarrow> string option \<times> ChatServer" where
  "updatePrivilege uname newPrivilege s =
     (None, s\<lparr>DB := map (\<lambda>a. if acc_username a = uname then a\<lparr>acc_privilege := newPrivilege\<rparr> else a)
                       (DB s)\<rparr>)"

definition deleteUser :: "string \<Rightarrow> ChatServer \<Rightarrow> string option \<times> ChatServer" where
  "deleteUser uname s = (None, s\<lparr>DB := filter (\<lambda>a. acc_username a \<noteq> uname) (DB s)\<rparr>)"

definition enumUsers :: "ChatServer \<Rightarrow> string + string list" where
  "enumUsers s =
     Inr (map (\<lambda>a. if acc_privilege a = 1 then acc_username a @ '' (admin)'' else acc_username a)
            (sort_key (\<lambda>a. (- acc_privilege a, acc_username a)) (DB s)))"

section \<open>usermgr.go: command handlers\<close>

definition handleWhoAmI :: "ref \<Rightarrow> ChatServer \<Rightarrow> ChatServer" where
  "handleWhoAmI user s =
     (if privilege (heap s user) = 1
      then snd (sendMessageToUser user
                 [''You are: '' @ nickname (heap s user) @ '' (admin) (''
                    @ remoteAddr (conns s (conn (heap s user))) @ '')'' @ [CHR 0x0A]] s)
      else snd (sendMessageToUser user
                 [''You are: '' @ nickname (heap s user) @ '' (user)'' @ [CHR 0x0A]] s))"

definition handlePrivateMessage :: "Env \<Rightarrow> ref \<Rightarrow> bool \<Rightarrow> string \<Rightarrow> string \<Rightarrow> ChatServer \<Rightarrow> ChatServer" where
  "handlePrivateMessage env sender isReply targetNickname message s =
     (case FindUser targetNickname s of
        None \<Rightarrow> snd (sendMessageToUser sender [''User not found.''] s)
      | Some targetUser \<Rightarrow>
          if sender = targetUser
          then snd (sendMessageToUser sender
                     [EncodeHTMLToTerm env (''<w>You whisper to yourself: '' @ message @ ''</w>'')] s)
          else
            let msgtype = (if isReply then ''reply replies'' else ''whisper whispers'');
                s1 = snd (sendMessageToUser sender
                       [EncodeHTMLToTerm env
                          (''<w>You '' @ Fields msgtype ! 0 @ '' to '' @ nickname (heap s targetUser)
                             @ '': '' @ message @ ''</w>'')] s);
                s2 = (if privilege (heap s1 sender) = 1
                      then snd (sendMessageToUser targetUser
                             [EncodeHTMLToTerm env
                                (''<aw>'' @ nickname (heap s1 sender) @ '' (admin) '' @ Fields msgtype ! 1
                                   @ '': '' @ message @ ''</ww>'')] s1)
                      else snd (sendMessageToUser targetUser
                             [EncodeHTMLToTerm env
                                (''<w>'' @ nickname (heap s1 sender) @ '' '' @ Fields msgtype ! 1
                                   @ '': '' @ message @ ''</w>'')] s1))
            in s2\<lparr>heap := (heap s2)(targetUser :=
                       (heap s2 targetUser)\<lparr>lastMsgFrom := nickname (heap s2 sender)\<rparr>)\<rparr>)"

definition handleUserLogout :: "ref \<Rightarrow> ChatServer \<Rightarrow> ChatServer" where
  "handleUserLogout user s =
     (let s1 = broadcastMessage [nickname (heap s user) @ '' has left the chat''] s;
          s2 = snd (connClose (conn (heap s1 user)) s1)
      in removeUser (nickname (heap s2 user)) s2)"

definition handleWho :: "Env \<Rightarrow> ref \<Rightarrow> ChatServer \<Rightarrow> ChatServer" where
  "handleWho env user s =
     (let ul = generateUserList env user s;
          s1 = snd (sendMessageToUser user [''Current Users:''] s)
      in snd (sendMessageToUser user [ul] s1))"

definition handleNewNick :: "ref \<Rightarrow> string \<Rightarrow> ChatServer \<Rightarrow> ChatServer" where
  "handleNewNick user newNickname s =
     (case validateNickname newNickname of
        Some err \<Rightarrow> snd (sendMessageToUser user [err] s)
      | None \<Rightarrow>
          (case FindUser newNickname s of
             Some existingUser \<Rightarrow>
               snd (sendMessageToUser user
                      [''That nickname is already in use. Please choose another.''] s)
           | None \<Rightarrow>
               let oldNickname = nickname (heap s user);
                   s1 = removeUser oldNickname s;
                   s2 = s1\<lparr>heap := (heap s1)(user := (heap s1 user)\<lparr>nickname := newNickname\<rparr>)\<rparr>
               in (case addUser user s2 of
                     (False, s3) \<Rightarrow>
                       snd (sendMessageToUser user
                              [''Failed to update nickname. Please try again.''] s3)
                   | (True, s3) \<Rightarrow>
                       broadcastMessage
                         [oldNickname @ '' is now: '' @ nickname (heap s3 user)] s3)))"

definition handleKick :: "string \<Rightarrow> string \<Rightarrow> ref \<Rightarrow> ChatServer \<Rightarrow> string option \<times> ChatServer" where
  "handleKick targetNickname kickMessage admin s =
     (if EqualFold targetNickname (nickname (heap s admin)) then (Some ''cannot kick yourself'', s)
      else
        (case FindUser targetNickname s of
           None \<Rightarrow> (Some ''user not found'', s)
         | Some targetUser \<Rightarrow>
             let nomsg = (Trim kickMessage '' '' = []);
                 kickMsg = (if nomsg then ''You have been kicked by '' @ nickname (heap s admin) @ ''.''
                            else ''You have been kicked by '' @ nickname (heap s admin) @ '': ''
                                   @ kickMessage);
                 s1 = snd (sendMessageToUser targetUser [kickMsg] s)
             in (case connClose (conn (heap s1 targetUser)) s1 of
                   (Some err, s2) \<Rightarrow> (Some err, s2)
                 | (None, s2) \<Rightarrow>
                     let s3 = removeUser (nickname (heap s2 targetUser)) s2;
                         bm = (if nomsg then nickname (heap s3 targetUser) @ '' has been kicked.''
                               else nickname (heap s3 targetUser) @ '' has been kicked by ''
                                      @ nickname (heap s3 admin) @ '': '' @ kickMessage);
                         s4 = broadcastMessageExcept (nickname (heap s3 targetUser)) [bm] s3;
                         s5 = snd (sendMessageToUser admin
                                [''User '' @ nickname (heap s4 targetUser) @ '' has been kicked.''] s4)
                     in (None, s5))))"

definition changePasswordForUser :: "Env \<Rightarrow> string \<Rightarrow> string \<Rightarrow> ChatServer \<Rightarrow> string option \<times> ChatServer" where
  "changePasswordForUser env uname newPassword s =
     (case GenerateFromPassword env newPassword of
        Inl err \<Rightarrow> (Some (''error hashing new password: '' @ err), s)
      | Inr newPasswordHash \<Rightarrow> updatePassword uname newPasswordHash s)"

definition handleChangePassword :: "Env \<Rightarrow> ref \<Rightarrow> string list \<Rightarrow> ChatServer \<Rightarrow> ChatServer" where
  "handleChangePassword env user args s =
     (if length args \<noteq> 2 then snd (sendMessageToUser user [''Usage: /passwd <username> <newPassword>''] s)
      else
        let targetUsername = args ! 0; newPassword = args ! 1 in
        if privilege (heap s user) = 1 then
          (case changePasswordForUser env targetUsername newPassword s of
             (Some err, s1) \<Rightarrow>
               snd (sendMessageToUser user
                      [''Error changing password for '' @ targetUsername @ '': '' @ err] s1)
           | (None, s1) \<Rightarrow>
               snd (sendMessageToUser user
                      [''Password for '' @ targetUsername @ '' updated successfully.''] s1))
        else if targetUsername \<noteq> username (heap s user)
        then snd (sendMessageToUser user [''You can only change your own password.''] s)
        else
          (case changePasswordForUser env (username (heap s user)) newPassword s of
             (Some err, s1) \<Rightarrow>
               snd (sendMessageToUser user
                      [''Error updating your password. Please try again later.''] s1)
           | (None, s1) \<Rightarrow>
               snd (sendMessageToUser user [''Your password has been updated successfully.''] s1)))"

definition handleCreateUser :: "Env \<Rightarrow> ref \<Rightarrow> string list \<Rightarrow> ChatServer \<Rightarrow> ChatServer" where
  "handleCreateUser env user args s =
     (if privilege (heap s user) < 1 then snd (sendMessageToUser user [ErrPrivilege] s)
      else if length args \<noteq> 2
      then snd (sendMessageToUser user [''Usage: /createuser <username> <password>''] s)
      else
        (case GenerateFromPassword env (args ! 1) of
           Inl err \<Rightarrow>
             snd (sendMessageToUser user [''Error hashing password. Please try again later.''] s)
         | Inr passwordHash \<Rightarrow>
             (case createUser (args ! 0) passwordHash 0 s of
                (Some err, s1) \<Rightarrow> snd (sendMessageToUser user [''Error creating user: '' @ err] s1)
              | (None, s1) \<Rightarrow>
                  snd (sendMessageToUser user
                         [''User '' @ args ! 0 @ '' created successfully.''] s1))))"

definition handleChangePrivilege :: "ref \<Rightarrow> string list \<Rightarrow> ChatServer \<Rightarrow> ChatServer" where
  "handleChangePrivilege user args s =
     (let syntax = ''Usage: /priv <username> <privilege> (0: user, 1: admin)'' in
      if privilege (heap s user) < 1 then snd (sendMessageToUser user [ErrPrivilege] s)
      else if length args \<noteq> 2 then snd (sendMessageToUser user [syntax] s)
      else if EqualFold (args ! 1) ''admin''
      then snd (sendMessageToUser user
                  [''Privilege level change for user 'admin' is not allowed.''] s)
      else
        (case Atoi (args ! 1) of
           None \<Rightarrow> snd (sendMessageToUser user [syntax] s)
         | Some newPrivilege \<Rightarrow>
             (case updatePrivilege (args ! 0) newPrivilege s of
                (Some err, s1) \<Rightarrow>
                  snd (sendMessageToUser user
                         [''Error changing privilege for user '' @ args ! 0 @ '': '' @ err] s1)
              | (None, s1) \<Rightarrow>
                  snd (sendMessageToUser user
                         [''Privilege for user '' @ args ! 0
                            @ '' updated successfully. User must re-login.''] s1))))"

definition handleDeleteUser :: "ref \<Rightarrow> string list \<Rightarrow> ChatServer \<Rightarrow> ChatServer" where
  "handleDeleteUser user args s =
     (let syntax = ''Usage: /deleteuser <username>'' in
      if privilege (heap s user) < 1 then snd (sendMessageToUser user [ErrPrivilege] s)
      else if length args \<noteq> 1 then snd (sendMessageToUser user [syntax] s)
      else
        let targetUsername = args ! 0 in
        if EqualFold targetUsername (username (heap s user))
        then snd (sendMessageToUser user [''Deleting current user is not allowed.''] s)
        else
          let kicked =
                (case FindUser targetUsername s of
                   None \<Rightarrow> (None, s)
                 | Some targetUser \<Rightarrow>
                     handleKick targetUsername ''User deleted by administrator'' user s)
          in (case kicked of
                (Some err, s1) \<Rightarrow>
                  snd (sendMessageToUser user
                         [''Error kicking user '' @ targetUsername @ '': '' @ err] s1)
              | (None, s1) \<Rightarrow>
                  (case deleteUser targetUsername s1 of
                     (Some err, s2) \<Rightarrow>
                       snd (sendMessageToUser user
                              [''Error deleting user '' @ targetUsername @ '': '' @ err] s2)
                   | (None, s2) \<Rightarrow>
                       snd (sendMessageToUser user
                              [''User '' @ targetUsername @ '' deleted successfully.''] s2))))"

definition handleEnumUsers :: "ref \<Rightarrow> ChatServer \<Rightarrow> ChatServer" where
  "handleEnumUsers user s =
     (if privilege (heap s user) < 1 then snd (sendMessageToUser user [ErrPrivilege] s)
      else
        (case enumUsers s of
           Inl err \<Rightarrow> snd (sendMessageToUser user [''Error enumerating users: '' @ err] s)
         | Inr dbusers \<Rightarrow>
             snd (sendMessageToUser user
                    [Join dbusers [CHR 0x0A] @ [CHR 0x0A] @ ''(End of list)''] s)))"

section \<open>server.go\<close>

definition handleEcho :: "ref \<Rightarrow> string list \<Rightarrow> ChatServer \<Rightarrow> ChatServer" where
  "handleEcho user args s =
     (if length args = 0 then snd (sendMessageToUser user [''Usage: /echo <message>''] s)
      else snd (sendMessageToUser user [''Echo: '' @ Join args '' ''] s))"

definition helpMsg :: "string list" where
  "helpMsg =
     [''<title>Available commands:</title>'' @ [CHR 0x0D],
      ''<cmd>/whoami</cmd> - Display your current nickname and privilege level'' @ [CHR 0x0D],
      ''<cmd>/echo</cmd> &lt;message&gt; - Echo back the message'' @ [CHR 0x0D],
      ''<cmd>/msg</cmd> &lt;nickname&gt; &lt;message&gt; - Send a private message'' @ [CHR 0x0D],
      ''<cmd>/reply</cmd> &lt;message&gt; - Reply to the last private message received'' @ [CHR 0x0D],
      ''<cmd>/bye</cmd> or /logout - Logout from the chat'' @ [CHR 0x0D],
      ''<cmd>/who</cmd> - List all users in the chat'' @ [CHR 0x0D],
      ''<cmd>/nick</cmd> &lt;newNickname&gt; - Change your nickname'' @ [CHR 0x0D],
      ''<cmd>/help</cmd> - Display this help information'' @ [CHR 0x0D]]"

definition adminCommands :: "string list" where
  "adminCommands =
     [[CHR 0x0D] @ ''<title>Admin commands:</title>'' @ [CHR 0x0D],
      ''<cmd>/createuser</cmd> &lt;username&gt; &lt;password&gt; - Create a new user'' @ [CHR 0x0D],
      ''<cmd>/priv</cmd> &lt;username&gt; &lt;level&gt; - Change user privileges'' @ [CHR 0x0D],
      ''<cmd>/deleteuser</cmd> &lt;username&gt; - Delete a user'' @ [CHR 0x0D],
      ''<cmd>/enumusers</cmd> - List all users'' @ [CHR 0x0D],
      ''<cmd>/kick</cmd> &lt;nickname&gt; [reason] - Kick a user'' @ [CHR 0x0D],
      ''<cmd>/shutdown</cmd> [seconds] - Shutdown the server with an optional countdown''
        @ [CHR 0x0D]]"

definition handleHelp :: "Env \<Rightarrow> ref \<Rightarrow> ChatServer \<Rightarrow> ChatServer" where
  "handleHelp env user s =
     (let msgs = (if privilege (heap s user) > 0 then helpMsg @ adminCommands else helpMsg)
      in snd (sendMessageToUser user [EncodeHTMLToTerm env (Join msgs [CHR 0x0A])] s))"

definition testSrc :: string where
  \<open>testSrc = ''[src4] This is <span style="color: blue; font-weight: bold">This is <u>blue and bold</u> with <span style="color: green">green nested text</span></span> and normal text''\<close>

definition handleTest :: "Env \<Rightarrow> ref \<Rightarrow> ChatServer \<Rightarrow> ChatServer" where
  "handleTest env user s =
     (let s1 = snd (sendMessageToUser user [''Test command received.''] s);
          s2 = snd (sendMessageToUser user [EncodeHTMLToTerm env testSrc] s1)
      in snd (sendMessageToUser user [''This should be normal text again''] s2))"

definition parseCommand :: "ref \<Rightarrow> string \<Rightarrow> ServerCommand" where
  "parseCommand user input =
     (case Fields (TrimPrefix (TrimSpace input) ''/'') of
        [] \<Rightarrow> \<lparr>Command = [], User = Some user, Args = []\<rparr>
      | p # ps \<Rightarrow> \<lparr>Command = p, User = Some user, Args = ps\<rparr>)"

text \<open>
  One round of the loop of \<open>handleUserInput\<close> on a line that was read: the command to
  put on the channel, if the line is one, and the server after a broadcast otherwise.
\<close>

definition handleUserInputLine :: "ref \<Rightarrow> string \<Rightarrow> ChatServer \<Rightarrow> ServerCommand option \<times> ChatServer" where
  "handleUserInputLine user line s =
     (let msg = TrimSpace line in
      if msg = [] then (None, s)
      else if hd msg = CHR ''/'' then (Some (parseCommand user msg), s)
      else (None, broadcastMessage [nickname (heap s user) @ '': '' @ msg] s))"

text \<open>
  A Go panic (an index or slice bound out of range, closing a closed channel) is an
  outcome of its own: it ends the process.
\<close>

datatype flow = Continue | Return | Panic

definition terminateServerNow :: "Env \<Rightarrow> ChatServer \<Rightarrow> flow \<times> ChatServer" where
  "terminateServerNow env s =
     (let s1 = s\<lparr>shutdownOngoing := True\<rparr>;
          s2 = broadcastSysMessage env
                 [''System Notice: ChatServer is shutting down NOW. Please reconnect later.''] s1;
          s3 = s2\<lparr>listenerClosed := True\<rparr>
      in if commandsClosed s3 then (Panic, s3)
         else let s4 = s3\<lparr>commandsClosed := True\<rparr>
              in (Continue, rangeUsers (\<lambda>u s'. snd (connClose (conn (heap s' u)) s')) (users s4) s4))"

text \<open>
  With a positive delay \<open>terminateServer\<close> broadcasts the notice and starts two
  goroutines, the warnings (\<open>countdownWarnings\<close>) and the sleeper that calls
  \<open>terminateServerNow\<close> when the delay is over; the model records the delay in
  \<open>countdowns\<close>. Go's \<open>/\<close> and \<open>%\<close> are applied to positive numbers only.
\<close>

definition terminateServer :: "Env \<Rightarrow> int \<Rightarrow> ChatServer \<Rightarrow> flow \<times> ChatServer" where
  "terminateServer env seconds s =
     (if seconds > 0
      then let msg = ''ChatServer shutdown has been initiated; server will shut down in ''
                       @ itoa (seconds div 60) @ '' minutes, '' @ itoa (seconds mod 60)
                       @ '' seconds.'';
               s1 = broadcastSysMessage env [msg] s
           in (Continue, s1\<lparr>countdowns := countdowns s1 @ [seconds]\<rparr>)
      else terminateServerNow env s)"

definition kickCommand :: "ref \<Rightarrow> string list \<Rightarrow> ChatServer \<Rightarrow> flow \<times> ChatServer" where
  "kickCommand user args s =
     (if privilege (heap s user) = 0 then (Continue, snd (sendMessageToUser user [ErrPrivilege] s))
      else if length args = 1 then
        (case handleKick (args ! 0) [] user s of
           (Some err, s1) \<Rightarrow>
             (Continue, snd (sendMessageToUser user [''Error executing kick command. '' @ err] s1))
         | (None, s1) \<Rightarrow> (Continue, s1))
      else if length args < 1 then (Panic, s)
      else
        (case handleKick (args ! 0) (Join (drop 1 args) '' '') user s of
           (Some err, s1) \<Rightarrow>
             (Continue, snd (sendMessageToUser user [''Error executing kick command. '' @ err] s1))
         | (None, s1) \<Rightarrow> (Continue, s1)))"

definition shutdownCommand :: "Env \<Rightarrow> ref \<Rightarrow> string list \<Rightarrow> ChatServer \<Rightarrow> flow \<times> ChatServer" where
  "shutdownCommand env user args s =
     (if privilege (heap s user) = 0 then (Return, snd (sendMessageToUser user [ErrPrivilege] s))
      else if length args > 0 then
        (case Atoi (args ! 0) of
           None \<Rightarrow> (Continue, snd (sendMessageToUser user [ErrInvalidShutdownTime] s))
         | Some cts \<Rightarrow>
             if cts < 0 then (Continue, snd (sendMessageToUser user [ErrInvalidShutdownTime] s))
             else (case terminateServer env cts s of
                     (Panic, s1) \<Rightarrow> (Panic, s1)
                   | (_, s1) \<Rightarrow> (Return, s1)))
      else (Return, s))"

text \<open>
  The body of the loop of \<open>commandDispatcher\<close> for one received command: \<open>Continue\<close>
  goes on with the next command (also where the source falls out of the \<open>switch\<close>),
  \<open>Return\<close> is the \<open>return\<close> that ends the dispatcher.
\<close>

definition dispatch :: "Env \<Rightarrow> ServerCommand \<Rightarrow> ChatServer \<Rightarrow> flow \<times> ChatServer" where
  "dispatch env cmd s =
     (case User cmd of
        None \<Rightarrow> (Continue, s)
      | Some user \<Rightarrow>
          let c = Command cmd; args = Args cmd in
          if c = [] then (Continue, s)
          else if c = ''help'' then (Continue, handleHelp env user s)
          else if c = ''test'' then (Continue, handleTest env user s)
          else if c = ''whoami'' then (Continue, handleWhoAmI user s)
          else if c = ''echo'' then (Continue, handleEcho user args s)
          else if c = ''kick'' then kickCommand user args s
          else if c = ''msg'' \<or> c = ''w'' \<or> c = ''whisper'' then
            (if length args \<ge> 2 then
               (if Trim (Join (drop 1 args) '' '') '' '' = []
                then (Continue, snd (sendMessageToUser user [''Message what?''] s))
                else (Continue,
                      handlePrivateMessage env user False (args ! 0) (Join (drop 1 args) '' '') s))
             else (Continue,
                   snd (sendMessageToUser user
                          [''Invalid message format. Use: /msg <nickname> <message>''] s)))
          else if c = ''r'' \<or> c = ''reply'' then
            (if lastMsgFrom (heap s user) = []
             then (Continue, snd (sendMessageToUser user [''No user to reply to.''] s))
             else if Trim (Join args '' '') '' '' = []
             then (Continue,
                   snd (sendMessageToUser user [''Invalid reply format. Use: /r <message>''] s))
             else (Continue,
                   handlePrivateMessage env user True (lastMsgFrom (heap s user))
                     (Join args '' '') s))
          else if c = ''bye'' \<or> c = ''logout'' then (Continue, handleUserLogout user s)
          else if c = ''who'' then (Continue, handleWho env user s)
          else if c = ''nick'' then
            (if length args > 0 then (Continue, handleNewNick user (args ! 0) s)
             else (Continue,
                   snd (sendMessageToUser user
                          [''Please provide a new nickname. Use: /nick <newNickname>''] s)))
          else if c = ''passwd'' then (Continue, handleChangePassword env user args s)
          else if c = ''createuser'' then (Continue, handleCreateUser env user args s)
          else if c = ''priv'' then (Continue, handleChangePrivilege user args s)
          else if c = ''deleteuser'' then (Continue, handleDeleteUser user args s)
          else if c = ''enumusers'' then (Continue, handleEnumUsers user s)
          else if c = ''shutdown'' then shutdownCommand env user args s
          else (Continue, snd (sendMessageToUser user [''Unknown command.''] s)))"

text \<open>
  \<open>commandDispatcher\<close> on the commands that are sent to the channel, in order. It ends
  \<open>Blocked\<close> when it waits for the next command, \<open>ChannelClosed\<close> when the \<open>range\<close>
  ends because the channel was closed, \<open>Returned\<close> at the \<open>return\<close> of the shutdown
  case, \<open>Panicked\<close> on a panic; with it come the commands that were never received.
\<close>

datatype dispatcher_end = Blocked | ChannelClosed | Returned | Panicked

fun commandDispatcher ::
  "Env \<Rightarrow> ServerCommand list \<Rightarrow> ChatServer \<Rightarrow> dispatcher_end \<times> ServerCommand list \<times> ChatServer" where
  "commandDispatcher env [] s = (if commandsClosed s then ChannelClosed else Blocked, [], s)"
| "commandDispatcher env (cmd # cmds) s =
     (if commandsClosed s then (ChannelClosed, cmd # cmds, s)
      else (case dispatch env cmd s of
              (Continue, s') \<Rightarrow> commandDispatcher env cmds s'
            | (Return, s') \<Rightarrow> (Returned, cmds, s')
            | (Panic, s') \<Rightarrow> (Panicked, cmds, s')))"

section \<open>serveraux.go: the shutdown countdown\<close>

text \<open>
  \<open>countdownWarnings\<close> as the list of its calls of \<open>broadcastSysMessage\<close>, in order:
  each with the value of \<open>remainingTime\<close> at the call (one tick of the ticker is one
  second) and the message. \<open>remainingTime\<close> is positive wherever \<open>%\<close> and \<open>/\<close> are
  applied to it, or the result is not used.
\<close>

definition Minute :: int where
  "Minute = 60"

definition warningAt :: "int \<Rightarrow> (int \<times> string) list" where
  "warningAt remainingTime =
     (if remainingTime > 15 * Minute then
        (if remainingTime mod (15 * Minute) = 0
         then [(remainingTime,
                ''System Notice: SHUTDOWN in '' @ itoa (remainingTime div Minute) @ '' minutes'')]
         else [])
      else if remainingTime \<le> 15 * Minute \<and> remainingTime > 1 * Minute then
        (if remainingTime mod 60 = 0
         then [(remainingTime,
                ''System Notice: SHUTDOWN in '' @ itoa (remainingTime div 60)
                  @ '' minutes. Please log out now.'')]
         else [])
      else if remainingTime \<le> 1 * Minute then
        (if remainingTime mod 10 = 0 \<and> remainingTime > 0
         then [(remainingTime,
                ''System Notice: SHUTDOWN IMMINENT in '' @ itoa remainingTime
                  @ '' seconds. LOG OUT NOW!'')]
         else [])
      else [])"

function countdownWarnings :: "int \<Rightarrow> (int \<times> string) list" where
  "countdownWarnings remainingTime =
     (if remainingTime > 0
      then warningAt (remainingTime - 1) @ countdownWarnings (remainingTime - 1)
      else [])"
  by pat_completeness auto
termination
  by (relation "measure nat") auto

text \<open>The effect of the countdown on the server: the broadcasts, one after the other.\<close>

definition runCountdown :: "Env \<Rightarrow> int \<Rightarrow> ChatServer \<Rightarrow> ChatServer" where
  "runCountdown env seconds s =
     foldl (\<lambda>s' w. broadcastSysMessage env [snd w] s') s (countdownWarnings seconds)"


section \<open>The login phase\<close>

text \<open>
  Time is counted in seconds from the moment \<open>handleNewClient\<close> creates the timer
  \<open>time.After(loginTimeout * time.Second)\<close>, which fires at time \<open>loginTimeout\<close>. What
  the client sends is a list of events, each with the time at which it is there for
  the reader: a line as \<open>ReadString\<close> returns it (with its terminator), or a failure of
  the read. A read begun at time \<open>now\<close> on an event of time \<open>t\<close> returns at
  \<open>max now t\<close>; on the empty list it never returns (the client is silent and the
  connection stays open). One connection is modelled on its own: the channels
  \<open>timedLoginNickChan\<close> and \<open>timedLoginErrorChan\<close>, which all connections share, carry
  only this connection's values. Where a line and the timer are ready at the same
  moment the model lets the timer win.
\<close>

datatype read_event = Line string | ReadError string

type_synonym client_input = "(nat \<times> read_event) list"

text \<open>
  \<open>queryNicknameWithTimeout\<close>: the result (\<open>Inl\<close> the error message, \<open>Inr\<close> the
  nickname), the time at which it returns, and the input left.
\<close>

fun queryNicknameWithTimeout :: "nat \<Rightarrow> client_input \<Rightarrow> (string + string) \<times> nat \<times> client_input" where
  "queryNicknameWithTimeout now [] = (Inl ''timeout'', max now loginTimeout, [])"
| "queryNicknameWithTimeout now ((t, ev) # rest) =
     (if max now t < loginTimeout then
        (case ev of
           Line line \<Rightarrow>
             (let nick = sanitizeNickname (TrimRight line [CHR '' '', CHR 0x0D, CHR 0x0A])
              in case validateNickname nick of
                   Some err \<Rightarrow> (Inl err, max now t, rest)
                 | None \<Rightarrow> (Inr nick, max now t, rest))
         | ReadError err \<Rightarrow> (Inl err, max now t, rest))
      else (Inl ''timeout'', max now loginTimeout, (t, ev) # rest))"

datatype login_end =
  Authenticated ref | LoginTimeout | LoginAttemptsExhausted | LoginReadError | ReadBlockedForever

lemma queryNicknameWithTimeout_shorter:
  "queryNicknameWithTimeout now inp = (Inr nick, now', inp') \<Longrightarrow> length inp' < length inp"
  by (cases inp) (auto split: if_splits read_event.splits option.splits simp: Let_def)

text \<open>The loop \<open>for s.userManager.FindUser(username) != nil\<close> of \<open>handleNewClient\<close>.\<close>

function resolveNickname ::
  "nat \<Rightarrow> string \<Rightarrow> nat \<Rightarrow> client_input \<Rightarrow> ChatServer
     \<Rightarrow> (login_end + string) \<times> nat \<times> client_input \<times> ChatServer" where
  "resolveNickname c uname now inp s =
     (if FindUser uname s = None then (Inr uname, now, inp, s)
      else
        let s1 = snd (sendMessageToConn c
                   [''Username already in use. Please enter a different nickname: ''] s)
        in (case queryNicknameWithTimeout now inp of
              (Inl err, now', inp') \<Rightarrow>
                if err = ''timeout''
                then (Inl LoginTimeout, now', inp',
                      snd (sendMessageToConn c [''Login period exceeded, connection closed.''] s1))
                else (Inl LoginReadError, now', inp', s1)
            | (Inr newNickname, now', inp') \<Rightarrow>
                resolveNickname c (TrimSpace newNickname) now' inp' s1))"
  by pat_completeness auto
termination
  by (relation "measure (\<lambda>(c, uname, now, inp, s). length inp)")
    (auto dest: queryNicknameWithTimeout_shorter [OF sym])

text \<open>
  The loop \<open>for attempts := 0; attempts < maxLoginAttempts; attempts++\<close>. The password
  is read with \<open>reader.ReadString\<close> directly. After the password is accepted the
  \<open>User\<close> object gets its nickname and connection and enters the store.
\<close>

function loginAttempts ::
  "Env \<Rightarrow> nat \<Rightarrow> nat \<Rightarrow> nat \<Rightarrow> client_input \<Rightarrow> ChatServer
     \<Rightarrow> login_end \<times> nat \<times> client_input \<times> ChatServer" where
  "loginAttempts env c attempts now inp s =
     (if \<not> attempts < maxLoginAttempts
      then (LoginAttemptsExhausted, now, inp,
            snd (sendMessageToConn c [''Login attempts exhausted, closing connection.''] s))
      else if loginTimeout \<le> now
      then (LoginTimeout, now, inp,
            snd (sendMessageToConn c [''Login period exceeded, connection closed.''] s))
      else
        (case queryNicknameWithTimeout now inp of
           (Inl err, now1, inp1) \<Rightarrow>
             if err = ''timeout''
             then (LoginTimeout, now1, inp1,
                   snd (sendMessageToConn c [''Login period exceeded, connection closed.''] s))
             else (LoginReadError, now1, inp1, s)
         | (Inr uname, now1, inp1) \<Rightarrow>
             let s1 = snd (sendMessageToConn c [''Please enter your password: ''] s) in
             (case inp1 of
                [] \<Rightarrow> (ReadBlockedForever, now1, [], s1)
              | (t, ReadError err) # inp2 \<Rightarrow> (LoginReadError, max now1 t, inp2, s1)
              | (t, Line line) # inp2 \<Rightarrow>
                  (case authenticateUser env s1 uname (TrimSpace line) of
                     Inl err \<Rightarrow>
                       loginAttempts env c (attempts + 1) (max now1 t) inp2
                         (snd (sendMessageToConn c
                                [''Invalid username or password. Please try again.''] s1))
                   | Inr (i, un, pr) \<Rightarrow>
                       (case resolveNickname c uname (max now1 t) inp2 s1 of
                          (Inl failed, now3, inp3, s2) \<Rightarrow> (failed, now3, inp3, s2)
                        | (Inr nick, now3, inp3, s2) \<Rightarrow>
                            let user = nextRef s2;
                                s3 = s2\<lparr>heap := (heap s2)(user :=
                                          \<lparr>uid = i, username = un, privilege = pr, nickname = nick,
                                           conn = c, lastMsgFrom = []\<rparr>),
                                        nextRef := Suc user\<rparr>;
                                s4 = snd (sendMessageToConn c
                                       [''Welcome to '' @ serverName @ ''! You are now known as ''
                                          @ nick @ ''.''] s3);
                                s5 = snd (addUser user s4);
                                s6 = broadcastMessage [nick @ '' has joined the chat''] s5
                            in (Authenticated user, now3, inp3, s6))))))"
  by pat_completeness auto
termination
  by (relation "measure (\<lambda>(env, c, attempts, now, inp, s). maxLoginAttempts - attempts)") auto

text \<open>
  \<open>handleNewClient\<close> up to the call of \<open>handleUserInput\<close>: how the login phase ends, and
  when. On every return before that call the deferred \<open>conn.Close()\<close> runs.
\<close>

definition handleNewClient ::
  "Env \<Rightarrow> nat \<Rightarrow> client_input \<Rightarrow> ChatServer \<Rightarrow> login_end \<times> nat \<times> client_input \<times> ChatServer" where
  "handleNewClient env c inp s =
     (let s0 = snd (sendMessageToConn c
                 [''Welcome to '' @ serverName @ ''. Please enter your username: ''] s)
      in (case loginAttempts env c 0 0 inp s0 of
            (Authenticated user, now, inp', s') \<Rightarrow> (Authenticated user, now, inp', s')
          | (ReadBlockedForever, now, inp', s') \<Rightarrow> (ReadBlockedForever, now, inp', s')
          | (failed, now, inp', s') \<Rightarrow> (failed, now, inp', snd (connClose c s'))))"

declare natToDec.simps [simp del]
declare countdownWarnings.simps [simp del]
declare resolveNickname.simps [simp del]
declare loginAttempts.simps [simp del]

section \<open>Example servers\<close>

text \<open>
  Concrete servers for the evaluations below. Every connection is open and writable.
  \<open>goInsertionSort\<close> is the insertion sort that \<open>sort.Slice\<close> runs on a slice of up to
  twelve elements; \<open>demoEnv\<close> has it for \<open>SortSlice\<close>, the identity for the renderer,
  and a bcrypt that stores the password itself.
\<close>

fun insertLess :: "(string \<Rightarrow> string \<Rightarrow> bool) \<Rightarrow> string \<Rightarrow> string list \<Rightarrow> string list" where
  "insertLess lt x [] = [x]"
| "insertLess lt x (y # ys) =
     (if lt x (last (y # ys)) then insertLess lt x (butlast (y # ys)) @ [last (y # ys)]
      else (y # ys) @ [x])"

definition goInsertionSort :: "(string \<Rightarrow> string \<Rightarrow> bool) \<Rightarrow> string list \<Rightarrow> string list" where
  "goInsertionSort lt xs = foldl (\<lambda>acc x. insertLess lt x acc) [] xs"

definition demoEnv :: Env where
  "demoEnv = \<lparr>EncodeHTMLToTerm = (\<lambda>s. s), GenerateFromPassword = (\<lambda>p. Inr p),
               CompareHashAndPassword = (\<lambda>h p. h = p), SortSlice = goInsertionSort\<rparr>"

definition mkUser :: "string \<Rightarrow> int \<Rightarrow> nat \<Rightarrow> User" where
  "mkUser nick priv c =
     \<lparr>uid = int c, username = nick, privilege = priv, nickname = nick, conn = c,
      lastMsgFrom = []\<rparr>"

definition openConn :: Conn where
  "openConn = \<lparr>sent = [], alive = True, isClosed = False, remoteAddr = ''127.0.0.1:50000''\<rparr>"

definition mkServer :: "(string \<times> ref) list \<Rightarrow> (ref \<Rightarrow> User) \<Rightarrow> Account list \<Rightarrow> ChatServer" where
  "mkServer us h db =
     \<lparr>users = us, heap = h, conns = (\<lambda>c. openConn), DB = db, dbSeq = int (length db),
      nextRef = 100, shutdownOngoing = False, listenerClosed = False, commandsClosed = False,
      countdowns = []\<rparr>"

text \<open>\<open>alice\<close> is registered; the session at address 2 has the nickname \<open>Alice\<close>.\<close>

definition aliceServer :: ChatServer where
  "aliceServer =
     mkServer [(''alice'', 1)]
       ((\<lambda>r. mkUser [] 0 r)(1 := mkUser ''alice'' 0 1, 2 := mkUser ''Alice'' 0 2)) []"

text \<open>\<open>Bob\<close> has logged in under the account name \<open>Bob\<close>, so \<open>addUser\<close> stored him under that key.\<close>

definition bobServer :: ChatServer where
  "bobServer = mkServer [(''Bob'', 1)] ((\<lambda>r. mkUser [] 0 r)(1 := mkUser ''Bob'' 0 1)) []"

text \<open>The regular user \<open>bob\<close> and the admin \<open>root\<close>; the accounts \<open>admin\<close>, \<open>root\<close> and \<open>bob\<close>.\<close>

definition chatServer :: ChatServer where
  "chatServer =
     mkServer [(''bob'', 1), (''root'', 2)]
       ((\<lambda>r. mkUser [] 0 r)(1 := mkUser ''bob'' 0 1, 2 := mkUser ''root'' 1 2))
       [\<lparr>acc_id = 1, acc_username = ''admin'', password_hash = ''admin123'', acc_privilege = 1\<rparr>,
        \<lparr>acc_id = 2, acc_username = ''root'', password_hash = ''r00t'', acc_privilege = 1\<rparr>,
        \<lparr>acc_id = 3, acc_username = ''bob'', password_hash = ''hunter2'', acc_privilege = 0\<rparr>]"

text \<open>Nobody is on line; the account \<open>alice\<close> exists.\<close>

definition loginServer :: ChatServer where
  "loginServer =
     mkServer [] (\<lambda>r. mkUser [] 0 r)
       [\<lparr>acc_id = 1, acc_username = ''alice'', password_hash = ''secret'', acc_privilege = 0\<rparr>]"

text \<open>
  The command that the signal handlers of \<open>main\<close> and \<open>Run\<close> send on SIGINT or SIGTERM.
\<close>

definition signalShutdownCommand :: ServerCommand where
  "signalShutdownCommand = \<lparr>Command = ''shutdown'', User = None, Args = [''0'']\<rparr>"


section \<open>Facts for evaluation\<close>

lemmas string_defs =
  EqualFold_def ToLower_def toLowerChar_def isSpace_def TrimRight_def Trim_def TrimSpace_def
  TrimPrefix_def ReplaceAll_def Fields_def isDigit_def digitVal_def Atoi_def isLetter_def
  isWordChar_def nicknameRegexMatch_def validateNickname_def sanitizeNickname_def
  itoa_def digitChar_def natToDec.simps

lemmas message_defs =
  connWrite_def connClose_def sendMessageToConn_def sendSysMessageToConn_def
  unsafeSendMessageToUser_def unsafeSendSysMessageToUser_def sendMessageToUser_def
  broadcastMessage_def broadcastSysMessage_def broadcastMessageExcept_def

lemmas registry_defs = FindUser_def addUser_def removeUser_def

lemmas example_defs =
  mkUser_def openConn_def mkServer_def aliceServer_def bobServer_def chatServer_def
  loginServer_def demoEnv_def

lemma parseCommand_shutdown:
  "parseCommand u ''/shutdown'' = \<lparr>Command = ''shutdown'', User = Some u, Args = []\<rparr>"
  by (simp add: parseCommand_def string_defs)

lemma parseCommand_shutdown_0:
  "parseCommand u ''/shutdown 0'' = \<lparr>Command = ''shutdown'', User = Some u, Args = [''0'']\<rparr>"
  by (simp add: parseCommand_def string_defs)

lemma parseCommand_shutdown_90:
  "parseCommand u ''/shutdown 90'' = \<lparr>Command = ''shutdown'', User = Some u, Args = [''90'']\<rparr>"
  by (simp add: parseCommand_def string_defs)

lemma parseCommand_echo_hi:
  "parseCommand u ''/echo hi'' = \<lparr>Command = ''echo'', User = Some u, Args = [''hi'']\<rparr>"
  by (simp add: parseCommand_def string_defs)

lemma parseCommand_priv_admin_0:
  "parseCommand u ''/priv admin 0'' = \<lparr>Command = ''priv'', User = Some u, Args = [''admin'', ''0'']\<rparr>"
  by (simp add: parseCommand_def string_defs)

lemma parseCommand_priv_bob_admin:
  "parseCommand u ''/priv bob admin'' = \<lparr>Command = ''priv'', User = Some u, Args = [''bob'', ''admin'']\<rparr>"
  by (simp add: parseCommand_def string_defs)

lemmas parse_simps =
  parseCommand_shutdown parseCommand_shutdown_0 parseCommand_shutdown_90 parseCommand_echo_hi
  parseCommand_priv_admin_0 parseCommand_priv_bob_admin

section \<open>The registry (C1, C4, C5)\<close>

text \<open>
  What \<open>addUser\<close> and \<open>removeUser\<close> do on every registry: \<open>addUser\<close> looks the
  nickname up as it is written, \<open>removeUser\<close> deletes the key in lower case.
\<close>

lemma update_fresh_key: "k \<notin> fst ` set xs \<Longrightarrow> AList.update k v xs = xs @ [(k, v)]"
  by (induction xs) auto

lemma addUser_exact_key:
  "addUser u s =
     (if nickname (heap s u) \<in> fst ` set (users s) then (False, s)
      else (True, s\<lparr>users := users s @ [(nickname (heap s u), u)]\<rparr>))"
  by (simp add: addUser_def map_of_eq_None_iff update_fresh_key)

lemma removeUser_idempotent: "removeUser n (removeUser n s) = removeUser n s"
  by (simp add: removeUser_def delete_idem)

lemma removeUser_absent: "ToLower n \<notin> fst ` set (users s) \<Longrightarrow> removeUser n s = s"
  by (simp add: removeUser_def delete_id)

text \<open>
  C1. The claim: \<open>addUser\<close> fails whenever the nickname matches a registered one up to
  letter case. The code at \<open>aliceServer\<close>: \<open>FindUser\<close> finds the registered \<open>alice\<close> for
  the nickname \<open>Alice\<close> of session 2, yet \<open>addUser\<close> returns \<open>true\<close> and the registry then
  holds two sessions whose nicknames are equal up to case.
\<close>

theorem addUser_accepts_case_variant:
  "EqualFold (nickname (heap aliceServer 1)) (nickname (heap aliceServer 2))
   \<and> FindUser (nickname (heap aliceServer 2)) aliceServer = Some 1
   \<and> addUser 2 aliceServer
       = (True, aliceServer\<lparr>users := [(''alice'', 1), (''Alice'', 2)]\<rparr>)"
  by (simp add: example_defs registry_defs string_defs)

text \<open>
  C4. The claim: \<open>removeUser\<close> deletes the entry that matches up to letter case, whatever
  the case it was inserted under. The code at \<open>bobServer\<close>: \<open>Bob\<close> is registered under
  the key \<open>Bob\<close> and \<open>FindUser\<close> finds him, but \<open>removeUser\<close> with his own nickname
  changes nothing, and he is still registered after \<open>handleUserLogout\<close> has closed his
  connection.
\<close>

theorem removeUser_misses_mixed_case_key:
  "FindUser ''Bob'' bobServer = Some 1
   \<and> removeUser ''Bob'' bobServer = bobServer
   \<and> removeUser ''bob'' bobServer = bobServer
   \<and> users (handleUserLogout 1 bobServer) = [(''Bob'', 1)]
   \<and> isClosed (conns (handleUserLogout 1 bobServer) 1)"
  by (simp add: example_defs registry_defs string_defs message_defs handleUserLogout_def Let_def)

text \<open>
  C5. The claim: after a successful \<open>nick\<close> the registry has exactly one entry for the
  issuer and \<open>who\<close> shows the new nickname once. The code at \<open>bobServer\<close>, where \<open>Bob\<close>
  sends \<open>/nick carl\<close>: the old entry stays, the registry has two entries for the same
  session, the change is announced to him twice, and the listing of \<open>who\<close> names \<open>carl\<close>
  twice.
\<close>

theorem handleNewNick_keeps_old_entry:
  "validateNickname ''carl'' = None
   \<and> FindUser ''carl'' bobServer = None
   \<and> users (handleNewNick 1 ''carl'' bobServer) = [(''Bob'', 1), (''carl'', 1)]
   \<and> nickname (heap (handleNewNick 1 ''carl'' bobServer) 1) = ''carl''
   \<and> sent (conns (handleNewNick 1 ''carl'' bobServer) 1)
       = [''Bob is now: carl'', ''Bob is now: carl'']
   \<and> userList 1 (handleNewNick 1 ''carl'' bobServer) = [''carl (user)'', ''carl (user)'']
   \<and> generateUserList demoEnv 1 (handleNewNick 1 ''carl'' bobServer)
       = ''carl (user)'' @ [CHR 0x0A] @ ''carl (user)'' @ [CHR 0x0A] @ ''(end of list)'' @ [CHR 0x0A]"
  by (simp add: example_defs registry_defs string_defs message_defs handleNewNick_def Let_def
      userList_def userListEntry_def generateUserList_def goInsertionSort_def userListLess_def)

section \<open>The command dispatcher (C2, C3, C7, C10)\<close>

text \<open>
  The privilege gates on every server: a command of a session with privilege 0 is
  answered with \<open>ErrPrivilege\<close> only; after \<open>kick\<close>, \<open>createuser\<close>, \<open>priv\<close>, \<open>deleteuser\<close>
  and \<open>enumusers\<close> the loop goes on, after \<open>shutdown\<close> the dispatcher returns.
\<close>

lemma unprivileged_gated_command_continues:
  assumes "privilege (heap s u) = 0"
    and "c \<in> {''kick'', ''createuser'', ''priv'', ''deleteuser'', ''enumusers''}"
  shows "dispatch env \<lparr>Command = c, User = Some u, Args = args\<rparr> s
           = (Continue, snd (sendMessageToUser u [ErrPrivilege] s))"
  using assms
  by (elim insertE emptyE)
    (simp_all add: dispatch_def kickCommand_def handleCreateUser_def handleChangePrivilege_def
      handleDeleteUser_def handleEnumUsers_def)

lemma unprivileged_shutdown_returns:
  assumes "privilege (heap s u) = 0"
  shows "dispatch env \<lparr>Command = ''shutdown'', User = Some u, Args = args\<rparr> s
           = (Return, snd (sendMessageToUser u [ErrPrivilege] s))"
  using assms by (simp add: dispatch_def shutdownCommand_def)

lemma privileged_shutdown_without_argument:
  assumes "privilege (heap s u) \<noteq> 0"
  shows "dispatch env \<lparr>Command = ''shutdown'', User = Some u, Args = []\<rparr> s = (Return, s)"
  using assms by (simp add: dispatch_def shutdownCommand_def)

text \<open>
  C2. The claim: after the permission-denied message of a privilege-gated command the
  dispatcher goes on with the queued commands, also for \<open>/shutdown\<close>. The code at
  \<open>chatServer\<close>, where \<open>bob\<close> (privilege 0) sends \<open>/shutdown\<close> and then \<open>/echo hi\<close>: \<open>bob\<close>
  gets the permission-denied message and the dispatcher returns; the echo, which the
  dispatcher answers when it comes alone, is never received.
\<close>

theorem unprivileged_shutdown_stops_dispatcher:
  "privilege (heap chatServer 1) = 0
   \<and> commandDispatcher env [parseCommand 1 ''/shutdown'', parseCommand 1 ''/echo hi''] chatServer
       = (Returned, [parseCommand 1 ''/echo hi''],
          chatServer\<lparr>conns := (conns chatServer)(1 := openConn\<lparr>sent := [ErrPrivilege]\<rparr>)\<rparr>)
   \<and> commandDispatcher env [parseCommand 1 ''/echo hi''] chatServer
       = (Blocked, [],
          chatServer\<lparr>conns := (conns chatServer)(1 := openConn\<lparr>sent := [''Echo: hi'']\<rparr>)\<rparr>)"
  by (simp add: parse_simps)
    (simp add: example_defs message_defs dispatch_def shutdownCommand_def handleEcho_def)

text \<open>
  C3. The claim: a shutdown command of an admin, also one with no argument, invokes
  \<open>terminateServer\<close> before the dispatcher ends. The code at \<open>chatServer\<close>, where the
  admin \<open>root\<close> sends \<open>/shutdown\<close>: the dispatcher returns and the server is as it was,
  with no notice sent, the listener open and no countdown. With \<open>/shutdown 0\<close> and
  \<open>/shutdown 90\<close> \<open>terminateServer\<close> does run.
\<close>

theorem admin_shutdown_without_argument_skips_terminateServer:
  "privilege (heap chatServer 2) = 1
   \<and> commandDispatcher env [parseCommand 2 ''/shutdown'', parseCommand 2 ''/echo hi''] chatServer
       = (Returned, [parseCommand 2 ''/echo hi''], chatServer)
   \<and> (case commandDispatcher env [parseCommand 2 ''/shutdown 0'', parseCommand 2 ''/echo hi'']
              chatServer of
         (e, rest, s) \<Rightarrow>
           e = Returned \<and> rest = [parseCommand 2 ''/echo hi''] \<and> shutdownOngoing s
           \<and> listenerClosed s \<and> commandsClosed s \<and> isClosed (conns s 1) \<and> isClosed (conns s 2)
           \<and> sent (conns s 1)
               = [EncodeHTMLToTerm env
                    ''<sys>System Notice: ChatServer is shutting down NOW. Please reconnect later.</sys>''])
   \<and> (case commandDispatcher env [parseCommand 2 ''/shutdown 90'', parseCommand 2 ''/echo hi'']
              chatServer of
         (e, rest, s) \<Rightarrow>
           e = Returned \<and> rest = [parseCommand 2 ''/echo hi''] \<and> countdowns s = [90]
           \<and> sent (conns s 1)
               = [EncodeHTMLToTerm env
                    ''<sys>ChatServer shutdown has been initiated; server will shut down in 1 minutes, 30 seconds.</sys>''])"
  by (simp add: parse_simps)
    (simp add: example_defs message_defs string_defs dispatch_def shutdownCommand_def
      terminateServer_def terminateServerNow_def Let_def)

text \<open>
  C7. The claim: \<open>priv\<close> refuses the reserved account name as its target, the first
  argument, and refuses no other target on this ground. The code at \<open>chatServer\<close>:
  \<open>/priv admin 0\<close> of the admin \<open>root\<close> sets the privilege of the account \<open>admin\<close> to 0
  and reports success; \<open>/priv bob admin\<close> is refused with the message about the user
  \<open>admin\<close> and leaves the accounts as they were.
\<close>

theorem priv_tests_level_argument_not_target:
  "map (\<lambda>a. (acc_username a, acc_privilege a)) (DB chatServer)
     = [(''admin'', 1), (''root'', 1), (''bob'', 0)]
   \<and> (case commandDispatcher env [parseCommand 2 ''/priv admin 0''] chatServer of
         (e, rest, s) \<Rightarrow>
           map (\<lambda>a. (acc_username a, acc_privilege a)) (DB s)
             = [(''admin'', 0), (''root'', 1), (''bob'', 0)]
           \<and> sent (conns s 2)
               = [''Privilege for user admin updated successfully. User must re-login.''])
   \<and> commandDispatcher env [parseCommand 2 ''/priv bob admin''] chatServer
       = (Blocked, [],
          chatServer\<lparr>conns := (conns chatServer)(2 := openConn
            \<lparr>sent := [''Privilege level change for user 'admin' is not allowed.'']\<rparr>)\<rparr>)"
  by (simp add: parse_simps)
    (simp add: example_defs message_defs string_defs dispatch_def handleChangePrivilege_def
      updatePrivilege_def Let_def)

text \<open>
  C10. A command with no issuer (\<open>User\<close> is \<open>nil\<close>) is skipped by the dispatcher: the
  server is unchanged and the dispatcher goes on with the commands behind it. This holds
  for the shutdown command that the signal handler sends, which so never reaches the
  shutdown case.
\<close>

theorem nil_user_command_discarded:
  assumes "User cmd = None" and "\<not> commandsClosed s"
  shows "dispatch env cmd s = (Continue, s)
         \<and> commandDispatcher env (cmd # cmds) s = commandDispatcher env cmds s
         \<and> dispatch env signalShutdownCommand s = (Continue, s)
         \<and> commandDispatcher env (signalShutdownCommand # cmds) s = commandDispatcher env cmds s"
  using assms by (simp add: dispatch_def signalShutdownCommand_def)

theorem nil_user_command_discarded_witness:
  "\<forall>env. User signalShutdownCommand = None \<and> \<not> commandsClosed chatServer
     \<and> commandDispatcher env [signalShutdownCommand, parseCommand 1 ''/echo hi''] chatServer
         = (Blocked, [],
            chatServer\<lparr>conns := (conns chatServer)(1 := openConn\<lparr>sent := [''Echo: hi'']\<rparr>)\<rparr>)"
proof
  fix env
  have a: "User signalShutdownCommand = None"
    by (simp add: signalShutdownCommand_def)
  have b: "\<not> commandsClosed chatServer"
    by (simp add: example_defs)
  have c: "commandDispatcher env [parseCommand 1 ''/echo hi''] chatServer
             = (Blocked, [],
                chatServer\<lparr>conns := (conns chatServer)(1 := openConn\<lparr>sent := [''Echo: hi'']\<rparr>)\<rparr>)"
    by (simp add: parse_simps)
      (simp add: example_defs message_defs dispatch_def handleEcho_def)
  from nil_user_command_discarded [OF a b, of env "[parseCommand 1 ''/echo hi'']"] a b c
  show "User signalShutdownCommand = None \<and> \<not> commandsClosed chatServer
     \<and> commandDispatcher env [signalShutdownCommand, parseCommand 1 ''/echo hi''] chatServer
         = (Blocked, [],
            chatServer\<lparr>conns := (conns chatServer)(1 := openConn\<lparr>sent := [''Echo: hi'']\<rparr>)\<rparr>)"
    by simp
qed

section \<open>The login phase (C6)\<close>

text \<open>
  A read through \<open>queryNicknameWithTimeout\<close> is back when the timer fires at the latest.
\<close>

lemma queryNicknameWithTimeout_bounded:
  "queryNicknameWithTimeout now inp = (r, now', inp') \<Longrightarrow> now' \<le> max now loginTimeout"
  by (cases inp) (auto simp: Let_def split: if_splits read_event.splits option.splits)

text \<open>
  C6. The claim: the one login timer covers every read of the login phase, the password
  read too, and a connection whose line does not come in time is closed with the
  time-out message. The code at \<open>loginServer\<close>: a client that sends its user name at
  time 1 and then nothing is never timed out, the handler stays in the password read
  and the connection stays open; a client that sends the password at time 100, long
  after the 30 seconds, is logged in at time 100. The read of the user name is under
  the timer: a name that comes at time 40 ends in the time-out at time 30.
\<close>

theorem password_read_has_no_timeout:
  "(case handleNewClient env 7 [(1, Line (''alice'' @ [CHR 0x0A]))] loginServer of
      (e, t, rest, s) \<Rightarrow>
        e = ReadBlockedForever \<and> \<not> isClosed (conns s 7)
        \<and> sent (conns s 7)
            = [''Welcome to ChatServer. Please enter your username: '',
               ''Please enter your password: ''])
   \<and> (case handleNewClient demoEnv 7
              [(1, Line (''alice'' @ [CHR 0x0A])), (100, Line (''secret'' @ [CHR 0x0A]))]
              loginServer of
         (e, t, rest, s) \<Rightarrow>
           e = Authenticated 100 \<and> t = 100 \<and> loginTimeout < t \<and> users s = [(''alice'', 100)]
           \<and> \<not> isClosed (conns s 7)
           \<and> sent (conns s 7)
               = [''Welcome to ChatServer. Please enter your username: '',
                  ''Please enter your password: '',
                  ''Welcome to ChatServer! You are now known as alice.'',
                  ''alice has joined the chat''])
   \<and> (case handleNewClient env 7 [(40, Line (''alice'' @ [CHR 0x0A]))] loginServer of
         (e, t, rest, s) \<Rightarrow>
           e = LoginTimeout \<and> t = loginTimeout \<and> isClosed (conns s 7)
           \<and> sent (conns s 7)
               = [''Welcome to ChatServer. Please enter your username: '',
                  ''Login period exceeded, connection closed.''])"
  by (simp add: example_defs registry_defs string_defs message_defs handleNewClient_def
      loginAttempts.simps resolveNickname.simps loginTimeout_def maxLoginAttempts_def
      authenticateUser_def serverName_def Let_def)

section \<open>The shutdown countdown (C8)\<close>








section \<open>Nicknames (C9)\<close>











end
